theory Spec2Isabelle
  imports Complex_Main
begin

section \<open>The movie catalog and its rating aggregate\<close>

text \<open>
  The repository holds two Express servers over the same \<open>movies\<close> table:
  \<^item> \<open>server.js\<close> (second document of \<open>src/README.md\<close>, lines 151-540), which validates
    its input; its handlers keep plain names here (\<open>rate_movie\<close>, \<open>update_movie\<close>, ...);
  \<^item> the pool server (third document of \<open>src/backend/db.js\<close>, lines 90-283), which rates
    inside a transaction; its handlers carry the prefix \<open>pool_\<close>.

  Modelling decisions, shared by both:
  \<^item> a JavaScript number is an exact rational (\<open>rat\<close>): IEEE rounding of doubles is not
    modelled;
  \<^item> the column \<open>average_rating DECIMAL(3,2)\<close> is the integer number of hundredths it holds;
    \<open>num_ratings\<close> is a natural number (the column starts at 0 and is only incremented);
    both columns are taken as non-NULL, and values beyond the range of \<open>DECIMAL(3,2)\<close> and
    \<open>INT\<close> are not modelled;
  \<^item> the route parameter \<open>:id\<close> is the integer it denotes (a non-numeric path segment is
    rejected by \<open>server.js\<close> with the same 400 as a non-positive one);
  \<^item> a request body carries, per key, either nothing (\<open>None\<close>, the key is \<open>undefined\<close>) or a
    value of the JSON type of its column; a key holding a value of another JSON type is not
    modelled;
  \<^item> the table operations are total, so the \<open>catch\<close> branches answering 500 for a failed
    query are reached only where a statement is malformed (an empty \<open>SET\<close> list).
\<close>

subsection \<open>Numbers and rounding\<close>

text \<open>
  \<open>Number.prototype.toFixed(2)\<close>: after taking the sign off, the integer \<open>n\<close> for which
  \<open>n / 100 - x\<close> is as close to zero as possible, the larger one when there are two.
  The result is given in hundredths.
\<close>

definition toFixed2 :: "rat \<Rightarrow> int" where
  "toFixed2 x =
     (let y = \<bar>x\<bar> * 100;
          lo = \<lfloor>y\<rfloor>;
          n = (if of_int (lo + 1) - y \<le> y - of_int lo then lo + 1 else lo)
      in if x < 0 then - n else n)"

text \<open>
  Storing an exact number into a \<open>DECIMAL(3,2)\<close> column: MySQL rounds half away from zero
  (a fractional part of .5 or more goes up if positive, down if negative). The result is
  the stored number of hundredths.
\<close>

definition decimal_3_2 :: "rat \<Rightarrow> int" where
  "decimal_3_2 x =
     (let y = \<bar>x\<bar> * 100;
          whole = \<lfloor>y\<rfloor>;
          n = (if 1 / 2 \<le> y - of_int whole then whole + 1 else whole)
      in if x < 0 then - n else n)"

text \<open>
  The specification's \<open>round2\<close>, from its words: round to 2 fractional digits, half away
  from zero.
\<close>

definition round2 :: "rat \<Rightarrow> rat" where
  "round2 x = sgn x * of_int \<lfloor>\<bar>x\<bar> * 100 + 1 / 2\<rfloor> / 100"

subsection \<open>The table\<close>

record movie =
  movie_id :: int
  title :: string
  director :: "string option"
  year :: "int option"
  genre :: "string option"
  average_rating :: int
  num_ratings :: nat
  description :: "string option"
  poster_url :: "string option"

record database =
  movies_table :: "movie list"
  auto_increment :: int

text \<open>The JavaScript number read from the \<open>average_rating\<close> column.\<close>

definition parseFloat_average :: "movie \<Rightarrow> rat" where
  "parseFloat_average m = of_int (average_rating m) / 100"

text \<open>\<open>SELECT ... FROM movies WHERE id = ?\<close>\<close>

definition select_by_id :: "movie list \<Rightarrow> int \<Rightarrow> movie list" where
  "select_by_id tbl i = filter (\<lambda>m. movie_id m = i) tbl"

text \<open>
  \<open>UPDATE movies SET ... WHERE id = ?\<close>, the assignment given as a function on rows:
  the table after the statement, and its \<open>affectedRows\<close>. That is the number of rows the
  statement changed or, when the connection carries the flag \<open>CLIENT_FOUND_ROWS\<close>, the
  number of rows it matched. The driver that fixes the flag is not part of the sources, so
  the flag is a parameter.
\<close>

definition update_rows :: "movie list \<Rightarrow> int \<Rightarrow> (movie \<Rightarrow> movie) \<Rightarrow> movie list" where
  "update_rows tbl i f = map (\<lambda>m. if movie_id m = i then f m else m) tbl"

definition affectedRows :: "bool \<Rightarrow> movie list \<Rightarrow> int \<Rightarrow> (movie \<Rightarrow> movie) \<Rightarrow> nat" where
  "affectedRows found_rows tbl i f =
     (let matched = filter (\<lambda>m. movie_id m = i) tbl;
          changed = filter (\<lambda>m. f m \<noteq> m) matched
      in if found_rows then length matched else length changed)"

text \<open>\<open>DELETE FROM movies WHERE id = ?\<close>, with its \<open>affectedRows\<close>.\<close>

definition sql_delete :: "movie list \<Rightarrow> int \<Rightarrow> nat \<times> movie list" where
  "sql_delete tbl i =
     (length (filter (\<lambda>m. movie_id m = i) tbl), filter (\<lambda>m. movie_id m \<noteq> i) tbl)"

subsection \<open>Responses\<close>

datatype body =
    Error string
  | Message string
  | Rated string rat nat
  | Rows "movie list"
  | Row movie

record response =
  status :: nat
  body :: body

subsection \<open>server.js: rating\<close>

definition validateRating :: "rat option \<Rightarrow> string option" where
  "validateRating rating =
     (case rating of
        None \<Rightarrow> Some ''Rating must be an integer between 1 and 5.''
      | Some r \<Rightarrow>
          if of_int \<lfloor>r\<rfloor> \<noteq> r \<or> r < 1 \<or> r > 5
          then Some ''Rating must be an integer between 1 and 5.''
          else None)"

definition rate_movie ::
  "bool \<Rightarrow> database \<Rightarrow> int \<Rightarrow> rat option \<Rightarrow> response \<times> database" where
  "rate_movie found_rows db i rating =
     (if i \<le> 0 then
        (\<lparr>status = 400, body = Error ''Invalid movie ID. Must be a positive number.''\<rparr>, db)
      else
        case validateRating rating of
          Some validationError \<Rightarrow> (\<lparr>status = 400, body = Error validationError\<rparr>, db)
        | None \<Rightarrow>
           (let movies = select_by_id (movies_table db) i in
            if movies = [] then (\<lparr>status = 404, body = Message ''Movie not found.''\<rparr>, db)
            else
              let currentMovie = hd movies;
                  oldAverageRating = parseFloat_average currentMovie;
                  oldNumRatings = num_ratings currentMovie;
                  newNumRatings = oldNumRatings + 1;
                  newAverageRating =
                    (oldAverageRating * of_nat oldNumRatings + the rating) / of_nat newNumRatings;
                  assignment = (\<lambda>m. m\<lparr>average_rating := toFixed2 newAverageRating,
                                      num_ratings := newNumRatings\<rparr>);
                  db' = db\<lparr>movies_table := update_rows (movies_table db) i assignment\<rparr>
              in if affectedRows found_rows (movies_table db) i assignment = 0 then
                   (\<lparr>status = 404,
                     body = Message ''Movie not found or no changes made during rating.''\<rparr>, db')
                 else
                   (\<lparr>status = 200,
                     body = Rated ''Movie rated successfully.''
                              (of_int (toFixed2 newAverageRating) / 100) newNumRatings\<rparr>, db')))"

subsection \<open>The pool server: rating inside a transaction\<close>

text \<open>
  A transaction is the pair of the committed state and the state the connection works on:
  \<open>rollback\<close> gives the first back, \<open>commit\<close> the second.
\<close>

definition beginTransaction :: "database \<Rightarrow> database \<times> database" where
  "beginTransaction db = (db, db)"

definition rollback :: "database \<times> database \<Rightarrow> database" where
  "rollback tx = fst tx"

definition commit :: "database \<times> database \<Rightarrow> database" where
  "commit tx = snd tx"

text \<open>
  The guard is \<open>!rating || rating < 1 || rating > 5\<close>; of the numbers, only 0 is falsy.
  The new average goes to the column unrounded, so the column rounds it; the reply rounds
  it with \<open>toFixed(2)\<close>.
\<close>

definition pool_rate :: "database \<Rightarrow> int \<Rightarrow> rat option \<Rightarrow> response \<times> database" where
  "pool_rate db i rating =
     (if (case rating of None \<Rightarrow> True | Some r \<Rightarrow> r = 0 \<or> r < 1 \<or> r > 5) then
        (\<lparr>status = 400, body = Error ''Invalid rating. Must be between 1 and 5.''\<rparr>, db)
      else
        let tx = beginTransaction db;
            movieRows = select_by_id (movies_table (snd tx)) i
        in if length movieRows = 0 then
             (\<lparr>status = 404, body = Error ''Movie not found''\<rparr>, rollback tx)
           else
             let movie = hd movieRows;
                 currentTotalRating = parseFloat_average movie * of_nat (num_ratings movie);
                 newNumRatings = num_ratings movie + 1;
                 newTotalRating = currentTotalRating + the rating;
                 newAverageRating = newTotalRating / of_nat newNumRatings;
                 assignment = (\<lambda>m. m\<lparr>average_rating := decimal_3_2 newAverageRating,
                                     num_ratings := newNumRatings\<rparr>);
                 tx' = (fst tx,
                        (snd tx)\<lparr>movies_table := update_rows (movies_table (snd tx)) i assignment\<rparr>)
             in (\<lparr>status = 200,
                  body = Rated ''Rating submitted successfully''
                           (of_int (toFixed2 newAverageRating) / 100) newNumRatings\<rparr>,
                 commit tx'))"

subsection \<open>server.js: validation of a movie\<close>

text \<open>The body of a \<open>POST\<close> or \<open>PUT\<close> request: one optional entry per column but \<open>id\<close>.\<close>

record movie_data =
  data_title :: "string option"
  data_director :: "string option"
  data_year :: "int option"
  data_genre :: "string option"
  data_description :: "string option"
  data_poster_url :: "string option"
  data_average_rating :: "rat option"
  data_num_ratings :: "nat option"

text \<open>\<open>String.prototype.trim\<close>, on the ASCII white space and line terminators.\<close>

definition is_space :: "char \<Rightarrow> bool" where
  "is_space c = (c \<in> set [CHR 0x09, CHR 0x0A, CHR 0x0B, CHR 0x0C, CHR 0x0D, CHR 0x20])"

definition trim :: "string \<Rightarrow> string" where
  "trim s = rev (dropWhile is_space (rev (dropWhile is_space s)))"

text \<open>
  The test \<open>/^https?:\/\/.+\.(jpg|jpeg|png|gif|bmp|webp)$/i\<close>: a scheme at the start, a
  dot and an extension at the end, and between them at least one character, none of them
  a line terminator; letters compared without case.
\<close>

definition lower_char :: "char \<Rightarrow> char" where
  "lower_char c =
     (case map_of (zip ''ABCDEFGHIJKLMNOPQRSTUVWXYZ'' ''abcdefghijklmnopqrstuvwxyz'') c of
        Some l \<Rightarrow> l
      | None \<Rightarrow> c)"

definition is_image_url :: "string \<Rightarrow> bool" where
  "is_image_url u =
     (let l = map lower_char u in
      list_ex (\<lambda>scheme.
        list_ex (\<lambda>ext.
          let k = length scheme; e = length ext + 1 in
          take k l = scheme \<and> k + e < length l \<and>
          drop (length l - e) l = CHR ''.'' # ext \<and>
          list_all (\<lambda>c. c \<noteq> CHR 0x0A \<and> c \<noteq> CHR 0x0D) (take (length l - e - k) (drop k l)))
        [''jpg'', ''jpeg'', ''png'', ''gif'', ''bmp'', ''webp''])
      [''http://'', ''https://''])"

definition validateMovieData :: "movie_data \<Rightarrow> bool \<Rightarrow> string option" where
  "validateMovieData data isNew =
     (if isNew \<and> (case data_title data of None \<Rightarrow> True | Some t \<Rightarrow> t = [] \<or> trim t = [])
      then Some ''Title is required and must be a non-empty string.''
      else if isNew \<and> (case data_director data of None \<Rightarrow> True | Some d \<Rightarrow> d = [] \<or> trim d = [])
      then Some ''Director is required and must be a non-empty string.''
      else if (case data_year data of None \<Rightarrow> False | Some y \<Rightarrow> y \<le> 0)
      then Some ''Year must be a positive integer.''
      else if (case data_genre data of None \<Rightarrow> False | Some g \<Rightarrow> trim g = [])
      then Some ''Genre must be a non-empty string.''
      else if (case data_description data of None \<Rightarrow> False | Some d \<Rightarrow> trim d = [])
      then Some ''Description must be a non-empty string.''
      else if (case data_poster_url data of None \<Rightarrow> False | Some u \<Rightarrow> \<not> is_image_url u)
      then Some ''Poster URL must be a valid image URL (http/https).''
      else None)"

subsection \<open>server.js: create, update, delete\<close>

text \<open>\<open>year || null\<close> and \<open>genre || null\<close>: a falsy value becomes \<open>NULL\<close>.\<close>

definition or_null_number :: "int option \<Rightarrow> int option" where
  "or_null_number v = (case v of None \<Rightarrow> None | Some n \<Rightarrow> if n = 0 then None else Some n)"

definition or_null_string :: "string option \<Rightarrow> string option" where
  "or_null_string v = (case v of None \<Rightarrow> None | Some t \<Rightarrow> if t = [] then None else Some t)"

text \<open>
  The \<open>INSERT\<close> names six columns; \<open>average_rating\<close> and \<open>num_ratings\<close> take the defaults of
  the schema (\<open>0.00\<close> and \<open>0\<close>), and \<open>id\<close> the next \<open>AUTO_INCREMENT\<close> value.
\<close>

definition create_movie :: "database \<Rightarrow> movie_data \<Rightarrow> response \<times> database" where
  "create_movie db data =
     (case validateMovieData data True of
        Some validationError \<Rightarrow> (\<lparr>status = 400, body = Error validationError\<rparr>, db)
      | None \<Rightarrow>
          let insertId = auto_increment db;
              row = \<lparr>movie_id = insertId,
                     title = the (data_title data),
                     director = data_director data,
                     year = or_null_number (data_year data),
                     genre = or_null_string (data_genre data),
                     average_rating = 0,
                     num_ratings = 0,
                     description = or_null_string (data_description data),
                     poster_url = or_null_string (data_poster_url data)\<rparr>
          in (\<lparr>status = 201, body = Row row\<rparr>,
              db\<lparr>movies_table := movies_table db @ [row], auto_increment := insertId + 1\<rparr>))"

text \<open>
  \<open>fieldsToUpdate\<close>: one assignment for each of the six keys the handler reads from the
  body and finds defined, in the handler's order.
\<close>

definition fieldsToUpdate :: "movie_data \<Rightarrow> (movie \<Rightarrow> movie) list" where
  "fieldsToUpdate data =
     (case data_title data of None \<Rightarrow> [] | Some v \<Rightarrow> [\<lambda>m. m\<lparr>title := v\<rparr>]) @
     (case data_director data of None \<Rightarrow> [] | Some v \<Rightarrow> [\<lambda>m. m\<lparr>director := Some v\<rparr>]) @
     (case data_year data of None \<Rightarrow> [] | Some v \<Rightarrow> [\<lambda>m. m\<lparr>year := Some v\<rparr>]) @
     (case data_genre data of None \<Rightarrow> [] | Some v \<Rightarrow> [\<lambda>m. m\<lparr>genre := Some v\<rparr>]) @
     (case data_description data of None \<Rightarrow> [] | Some v \<Rightarrow> [\<lambda>m. m\<lparr>description := Some v\<rparr>]) @
     (case data_poster_url data of None \<Rightarrow> [] | Some v \<Rightarrow> [\<lambda>m. m\<lparr>poster_url := Some v\<rparr>])"

text \<open>The \<open>SET\<close> list applied to a row, left to right.\<close>

definition assign :: "(movie \<Rightarrow> movie) list \<Rightarrow> movie \<Rightarrow> movie" where
  "assign fs m = fold (\<lambda>f r. f r) fs m"

definition update_movie ::
  "bool \<Rightarrow> database \<Rightarrow> int \<Rightarrow> movie_data \<Rightarrow> response \<times> database" where
  "update_movie found_rows db i data =
     (if i \<le> 0 then
        (\<lparr>status = 400, body = Error ''Invalid movie ID. Must be a positive number.''\<rparr>, db)
      else
        case validateMovieData data False of
          Some validationError \<Rightarrow> (\<lparr>status = 400, body = Error validationError\<rparr>, db)
        | None \<Rightarrow>
            if length (fieldsToUpdate data) = 0 then
              (\<lparr>status = 400, body = Error ''No fields provided for update.''\<rparr>, db)
            else
              let db' = db\<lparr>movies_table :=
                           update_rows (movies_table db) i (assign (fieldsToUpdate data))\<rparr>
              in if affectedRows found_rows (movies_table db) i (assign (fieldsToUpdate data)) = 0
                 then (\<lparr>status = 404, body = Message ''Movie not found or no changes made.''\<rparr>, db')
                 else (\<lparr>status = 200, body = Message ''Movie updated successfully.''\<rparr>, db'))"

definition delete_movie :: "database \<Rightarrow> int \<Rightarrow> response \<times> database" where
  "delete_movie db i =
     (if i \<le> 0 then
        (\<lparr>status = 400, body = Error ''Invalid movie ID. Must be a positive number.''\<rparr>, db)
      else
        let result = sql_delete (movies_table db) i;
            db' = db\<lparr>movies_table := snd result\<rparr>
        in if fst result = 0 then (\<lparr>status = 404, body = Message ''Movie not found.''\<rparr>, db')
           else (\<lparr>status = 200, body = Message ''Movie deleted successfully.''\<rparr>, db'))"

subsection \<open>server.js: search\<close>

text \<open>
  The query string. \<open>server.js\<close> reads \<open>title\<close>, \<open>director\<close>, \<open>genre\<close> and \<open>year\<close>, the pool
  server reads \<open>term\<close>. The year is the integer \<open>parseInt\<close> finds in it (a year that is not
  a number is rejected with the same 400 as a non-positive one).
\<close>

record search_query =
  query_term :: "string option"
  query_title :: "string option"
  query_director :: "string option"
  query_genre :: "string option"
  query_year :: "int option"

text \<open>A query parameter is a criterion when it is a non-empty string.\<close>

definition given :: "string option \<Rightarrow> bool" where
  "given v = (case v of None \<Rightarrow> False | Some t \<Rightarrow> t \<noteq> [])"

text \<open>
  The \<open>WHERE\<close> clause, one condition per criterion. The operator \<open>LIKE\<close> of the database
  (pattern first, text second) is a parameter; a \<open>NULL\<close> column satisfies no condition.
\<close>

definition like_column :: "(string \<Rightarrow> string \<Rightarrow> bool) \<Rightarrow> string \<Rightarrow> string option \<Rightarrow> bool" where
  "like_column LIKE pattern col = (case col of None \<Rightarrow> False | Some text \<Rightarrow> LIKE pattern text)"

definition search_params ::
  "(string \<Rightarrow> string \<Rightarrow> bool) \<Rightarrow> search_query \<Rightarrow> (movie \<Rightarrow> bool) list" where
  "search_params LIKE q =
     (if given (query_title q)
      then [\<lambda>m. LIKE (''%'' @ the (query_title q) @ ''%'') (title m)] else []) @
     (if given (query_director q)
      then [\<lambda>m. like_column LIKE (''%'' @ the (query_director q) @ ''%'') (director m)] else []) @
     (if given (query_genre q)
      then [\<lambda>m. like_column LIKE (''%'' @ the (query_genre q) @ ''%'') (genre m)] else []) @
     (case query_year q of None \<Rightarrow> [] | Some parsedYear \<Rightarrow> [\<lambda>m. year m = Some parsedYear])"

definition search_movies ::
  "(string \<Rightarrow> string \<Rightarrow> bool) \<Rightarrow> database \<Rightarrow> search_query \<Rightarrow> response" where
  "search_movies LIKE db q =
     (if (case query_year q of None \<Rightarrow> False | Some parsedYear \<Rightarrow> parsedYear \<le> 0) then
        \<lparr>status = 400, body = Error ''Search year must be a positive integer.''\<rparr>
      else if length (search_params LIKE q) = 0 then
        \<lparr>status = 400,
         body = Error ''Please provide at least one search criterion (title, director, genre, or year).''\<rparr>
      else
        \<lparr>status = 200,
         body = Rows (filter (\<lambda>m. list_all (\<lambda>cond. cond m) (search_params LIKE q))
                       (movies_table db))\<rparr>)"

subsection \<open>The pool server: search, create, update, delete\<close>

definition pool_search ::
  "(string \<Rightarrow> string \<Rightarrow> bool) \<Rightarrow> database \<Rightarrow> search_query \<Rightarrow> response" where
  "pool_search LIKE db q =
     (if \<not> given (query_term q) then
        \<lparr>status = 400, body = Error ''Search term is required.''\<rparr>
      else
        let searchTerm = ''%'' @ the (query_term q) @ ''%'' in
        \<lparr>status = 200,
         body = Rows (filter (\<lambda>m. LIKE searchTerm (title m) \<or>
                                   like_column LIKE searchTerm (director m) \<or>
                                   like_column LIKE searchTerm (genre m))
                       (movies_table db))\<rparr>)"

definition pool_create :: "database \<Rightarrow> movie_data \<Rightarrow> response \<times> database" where
  "pool_create db data =
     (if \<not> given (data_title data) \<or> \<not> given (data_director data) then
        (\<lparr>status = 400, body = Error ''Title and Director are required.''\<rparr>, db)
      else
        let insertId = auto_increment db;
            row = \<lparr>movie_id = insertId,
                   title = the (data_title data),
                   director = data_director data,
                   year = data_year data,
                   genre = data_genre data,
                   average_rating = 0,
                   num_ratings = 0,
                   description = data_description data,
                   poster_url = data_poster_url data\<rparr>;
            db' = db\<lparr>movies_table := movies_table db @ [row], auto_increment := insertId + 1\<rparr>;
            newMovie = select_by_id (movies_table db') insertId
        in (\<lparr>status = 201, body = Row (hd newMovie)\<rparr>, db'))"

text \<open>
  \<open>UPDATE movies SET ? WHERE id = ?\<close> with the whole body for \<open>?\<close>: every key of the body
  becomes an assignment to the column of that name, the two rating columns included.
  An empty body leaves an empty \<open>SET\<close> list, which the database refuses.
\<close>

definition set_clause :: "movie_data \<Rightarrow> (movie \<Rightarrow> movie) list" where
  "set_clause movieData =
     fieldsToUpdate movieData @
     (case data_average_rating movieData of
        None \<Rightarrow> [] | Some v \<Rightarrow> [\<lambda>m. m\<lparr>average_rating := decimal_3_2 v\<rparr>]) @
     (case data_num_ratings movieData of
        None \<Rightarrow> [] | Some v \<Rightarrow> [\<lambda>m. m\<lparr>num_ratings := v\<rparr>])"

definition pool_update :: "database \<Rightarrow> int \<Rightarrow> movie_data \<Rightarrow> response \<times> database" where
  "pool_update db i movieData =
     (if length (set_clause movieData) = 0 then
        (\<lparr>status = 500, body = Error ''Failed to update movie''\<rparr>, db)
      else
        (\<lparr>status = 200, body = Message ''Movie updated successfully''\<rparr>,
         db\<lparr>movies_table := update_rows (movies_table db) i (assign (set_clause movieData))\<rparr>))"

definition pool_delete :: "database \<Rightarrow> int \<Rightarrow> response \<times> database" where
  "pool_delete db i =
     (\<lparr>status = 200, body = Message ''Movie deleted successfully''\<rparr>,
      db\<lparr>movies_table := snd (sql_delete (movies_table db) i)\<rparr>)"

subsection \<open>The rows of init.sql\<close>

definition inception :: movie where
  "inception =
     \<lparr>movie_id = 1, title = ''Inception'', director = Some ''Christopher Nolan'',
      year = Some 2010, genre = Some ''Sci-Fi'', average_rating = 0, num_ratings = 0,
      description = Some ''A thief who steals corporate secrets through the use of dream-sharing technology is given the inverse task of planting an idea into the mind of a C.E.O.'',
      poster_url = Some ''https://image.tmdb.org/t/p/w500/oYuLEt3zVCKq57qu2F8dT7NIa6f.jpg''\<rparr>"

definition shawshank :: movie where
  "shawshank =
     \<lparr>movie_id = 2, title = ''The Shawshank Redemption'', director = Some ''Frank Darabont'',
      year = Some 1994, genre = Some ''Drama'', average_rating = 0, num_ratings = 0,
      description = Some ''Two imprisoned men bond over a number of years, finding solace and eventual redemption through acts of common decency.'',
      poster_url = Some ''https://image.tmdb.org/t/p/w500/q6y0Go1tsGEsmtFryDOJo3dEmqu.jpg''\<rparr>"

definition pulp_fiction :: movie where
  "pulp_fiction =
     \<lparr>movie_id = 3, title = ''Pulp Fiction'', director = Some ''Quentin Tarantino'',
      year = Some 1994, genre = Some ''Crime'', average_rating = 0, num_ratings = 0,
      description = Some ''The lives of two mob hitmen, a boxer, a gangster and his wife, and a pair of diner bandits intertwine in four tales of violence and redemption.'',
      poster_url = Some ''https://image.tmdb.org/t/p/w500/d5iIlFn5s0ImszYzBPb8JPIfbXD.jpg''\<rparr>"

definition init_sql :: database where
  "init_sql = \<lparr>movies_table = [inception, shawshank, pulp_fiction], auto_increment = 4\<rparr>"

text \<open>A table in which the second film has been rated twice, with average 3.00.\<close>

definition rated_twice :: database where
  "rated_twice = \<lparr>movies_table = [inception, shawshank\<lparr>average_rating := 300, num_ratings := 2\<rparr>], auto_increment = 4\<rparr>"


subsection \<open>What a rating may write\<close>

text \<open>
  Between two states of the database, nothing but the two aggregate columns of the rows
  with the given id differs: the rows correspond one to one, each row is the old one once
  its two aggregate columns are put back, and a row with another id is the old one.
\<close>

definition only_aggregate_written :: "database \<Rightarrow> int \<Rightarrow> database \<Rightarrow> bool" where
  "only_aggregate_written db i db' =
     (auto_increment db' = auto_increment db \<and>
      list_all2
        (\<lambda>old new.
           new\<lparr>average_rating := average_rating old, num_ratings := num_ratings old\<rparr> = old \<and>
           (movie_id old \<noteq> i \<longrightarrow> new = old))
        (movies_table db) (movies_table db'))"

subsection \<open>Ratings the range check refuses\<close>


subsection \<open>Ratings submitted one after the other\<close>


text \<open>The reply to a rating that was accepted, carrying an aggregate.\<close>

definition rated :: "string \<Rightarrow> rat \<times> nat \<Rightarrow> response" where
  "rated msg agg = \<lparr>status = 200, body = Rated msg (fst agg) (snd agg)\<rparr>"





subsection \<open>Requests used as examples\<close>

text \<open>A body that names only the two aggregate columns.\<close>

definition only_ratings :: movie_data where
  "only_ratings =
     \<lparr>data_title = None, data_director = None, data_year = None, data_genre = None,
      data_description = None, data_poster_url = None,
      data_average_rating = Some 5, data_num_ratings = Some 1000\<rparr>"

text \<open>The query string \<open>?year=1994\<close>.\<close>

definition year_1994 :: search_query where
  "year_1994 =
     \<lparr>query_term = None, query_title = None, query_director = None, query_genre = None,
      query_year = Some 1994\<rparr>"



subsection \<open>Bodies that change nothing\<close>

text \<open>Every value the body gives for one of the six keys is the value the row holds.\<close>

definition same_values :: "movie_data \<Rightarrow> movie \<Rightarrow> bool" where
  "same_values data m =
     ((case data_title data of None \<Rightarrow> True | Some v \<Rightarrow> title m = v) \<and>
      (case data_director data of None \<Rightarrow> True | Some v \<Rightarrow> director m = Some v) \<and>
      (case data_year data of None \<Rightarrow> True | Some v \<Rightarrow> year m = Some v) \<and>
      (case data_genre data of None \<Rightarrow> True | Some v \<Rightarrow> genre m = Some v) \<and>
      (case data_description data of None \<Rightarrow> True | Some v \<Rightarrow> description m = Some v) \<and>
      (case data_poster_url data of None \<Rightarrow> True | Some v \<Rightarrow> poster_url m = Some v))"

section \<open>Properties\<close>

subsection \<open>Rounding\<close>

text \<open>
  The three roundings agree: what \<open>toFixed(2)\<close> prints, what the column stores and what
  the specification calls \<open>round2\<close>.
\<close>

lemma nearest_floor: "(if of_int (\<lfloor>y\<rfloor> + 1) - y \<le> y - of_int \<lfloor>y\<rfloor> then \<lfloor>y\<rfloor> + 1 else \<lfloor>y\<rfloor>) = \<lfloor>y + 1 / 2\<rfloor>" for y :: rat
  by (auto intro!: floor_unique[symmetric]) (linarith+)

lemma toFixed2_round2: "of_int (toFixed2 x) / 100 = round2 x"
  unfolding toFixed2_def round2_def Let_def nearest_floor
  by (cases "x < 0"; cases "x = 0"; simp add: sgn_if floor_eq_iff)

lemma decimal_toFixed2: "decimal_3_2 x = toFixed2 x"
  unfolding toFixed2_def decimal_3_2_def Let_def
  by (auto simp: algebra_simps) 

text \<open>
  \<open>toFixed2\<close> is the rounding ECMAScript describes: for a number that is not negative,
  no integer of hundredths is closer than the one it returns, and among two equally close
  it returns the larger; a negative number is rounded as its absolute value.
\<close>

lemma toFixed2_nonneg: "0 \<le> x \<Longrightarrow> toFixed2 x = \<lfloor>x * 100 + 1 / 2\<rfloor>"
  unfolding toFixed2_def Let_def nearest_floor by simp

lemma toFixed2_nearest:
  "0 \<le> x \<Longrightarrow> \<bar>of_int (toFixed2 x) / 100 - x\<bar> \<le> \<bar>of_int k / 100 - x\<bar>"
proof -
  assume x: "0 \<le> x"
  define n where "n = \<lfloor>x * 100 + 1 / 2\<rfloor>"
  have b: "of_int n \<le> x * 100 + 1 / 2" "x * 100 + 1 / 2 < of_int n + 1"
    unfolding n_def by linarith+
  consider "k \<le> n - 1" | "k = n" | "n + 1 \<le> k"
    by linarith
  then have "\<bar>of_int n / 100 - x\<bar> \<le> \<bar>of_int k / 100 - x\<bar>"
  proof cases
    case 1
    then have "(of_int k :: rat) \<le> of_int n - 1"
      using of_int_le_iff[of k "n - 1", where ?'a = rat] by simp
    then show ?thesis using b by linarith
  next
    case 2
    then show ?thesis by simp
  next
    case 3
    then have "(of_int n :: rat) + 1 \<le> of_int k"
      using of_int_le_iff[of "n + 1" k, where ?'a = rat] by simp
    then show ?thesis using b by linarith
  qed
  then show ?thesis
    using x by (simp add: toFixed2_nonneg n_def)
qed

lemma toFixed2_tie:
  "0 \<le> x \<Longrightarrow> \<bar>of_int k / 100 - x\<bar> = \<bar>of_int (toFixed2 x) / 100 - x\<bar> \<Longrightarrow> k \<le> toFixed2 x"
proof -
  assume x: "0 \<le> x" and tie: "\<bar>of_int k / 100 - x\<bar> = \<bar>of_int (toFixed2 x) / 100 - x\<bar>"
  define n where "n = \<lfloor>x * 100 + 1 / 2\<rfloor>"
  have b: "of_int n \<le> x * 100 + 1 / 2" "x * 100 + 1 / 2 < of_int n + 1"
    unfolding n_def by linarith+
  have t: "\<bar>of_int k / 100 - x\<bar> = \<bar>of_int n / 100 - x\<bar>"
    using tie x by (simp add: toFixed2_nonneg n_def)
  have "k \<le> n"
  proof (rule ccontr)
    assume "\<not> k \<le> n"
    then have "n + 1 \<le> k" by simp
    then have "(of_int n :: rat) + 1 \<le> of_int k"
      using of_int_le_iff[of "n + 1" k, where ?'a = rat] by simp
    then show False using b t by linarith
  qed
  then show ?thesis
    using x by (simp add: toFixed2_nonneg n_def)
qed

lemma toFixed2_minus: "x < 0 \<Longrightarrow> toFixed2 x = - toFixed2 (- x)"
  by (simp add: toFixed2_def Let_def)

subsection \<open>Rating an existing film\<close>


lemma validateRating_valid: "1 \<le> r \<Longrightarrow> r \<le> 5 \<Longrightarrow> validateRating (Some (of_int r)) = None"
  by (simp add: validateRating_def)

lemma rating_changes_row: "m\<lparr>average_rating := a, num_ratings := num_ratings m + 1\<rparr> \<noteq> m"
proof
  assume "m\<lparr>average_rating := a, num_ratings := num_ratings m + 1\<rparr> = m"
  then have "num_ratings (m\<lparr>average_rating := a, num_ratings := num_ratings m + 1\<rparr>) = num_ratings m"
    by simp
  then show False by simp
qed

lemma affectedRows_rating:
  assumes "select_by_id tbl i = m # ms"
  shows "affectedRows fr tbl i (\<lambda>r. r\<lparr>average_rating := a, num_ratings := num_ratings m + 1\<rparr>) \<noteq> 0"
proof -
  have "m \<in> set (filter (\<lambda>r. movie_id r = i) tbl)"
    using assms by (simp add: select_by_id_def)
  then show ?thesis
    using assms rating_changes_row[of m a]
    by (auto simp: affectedRows_def Let_def select_by_id_def filter_empty_conv)
qed

lemma rate_movie_found:
  assumes "select_by_id (movies_table db) i = m # ms" "1 \<le> r" "r \<le> 5" "0 < i"
  shows "rate_movie fr db i (Some (of_int r)) =
     (\<lparr>status = 200, body = Rated ''Movie rated successfully.''
         (round2 ((parseFloat_average m * of_nat (num_ratings m) + of_int r) / of_nat (num_ratings m + 1)))
         (num_ratings m + 1)\<rparr>,
      db\<lparr>movies_table := update_rows (movies_table db) i
          (\<lambda>row. row\<lparr>average_rating := toFixed2 ((parseFloat_average m * of_nat (num_ratings m) + of_int r) / of_nat (num_ratings m + 1)),
                      num_ratings := num_ratings m + 1\<rparr>)\<rparr>)"
  using assms affectedRows_rating[OF assms(1), of fr]
  by (simp add: rate_movie_def validateRating_valid Let_def toFixed2_round2 del: of_nat_Suc of_nat_add)

lemma pool_rate_found:
  assumes "select_by_id (movies_table db) i = m # ms" "1 \<le> r" "r \<le> 5"
  shows "pool_rate db i (Some r) =
     (\<lparr>status = 200, body = Rated ''Rating submitted successfully''
         (round2 ((parseFloat_average m * of_nat (num_ratings m) + r) / of_nat (num_ratings m + 1)))
         (num_ratings m + 1)\<rparr>,
      db\<lparr>movies_table := update_rows (movies_table db) i
          (\<lambda>row. row\<lparr>average_rating := toFixed2 ((parseFloat_average m * of_nat (num_ratings m) + r) / of_nat (num_ratings m + 1)),
                      num_ratings := num_ratings m + 1\<rparr>)\<rparr>)"
  using assms
  by (simp add: pool_rate_def Let_def toFixed2_round2 decimal_toFixed2 beginTransaction_def commit_def
      del: of_nat_Suc of_nat_add)

lemma toFixed2_hundredths: "of_int (toFixed2 x) = round2 x * 100"
  using toFixed2_round2[of x] by simp



subsection \<open>The frame of a rating\<close>

lemma only_aggregate_written_refl: "only_aggregate_written db i db"
  by (simp add: only_aggregate_written_def list_all2_same)

lemma only_aggregate_written_update:
  "only_aggregate_written db i
     (db\<lparr>movies_table := update_rows (movies_table db) i
           (\<lambda>m. m\<lparr>average_rating := a, num_ratings := n\<rparr>)\<rparr>)"
  by (simp add: only_aggregate_written_def update_rows_def list_all2_map2 list_all2_same)

lemma rate_movie_state:
  "snd (rate_movie fr db i rating) = db \<or>
   (\<exists>a n. snd (rate_movie fr db i rating) =
      db\<lparr>movies_table := update_rows (movies_table db) i
           (\<lambda>m. m\<lparr>average_rating := a, num_ratings := n\<rparr>)\<rparr>)"
  by (auto simp: rate_movie_def Let_def split: option.splits)

lemma pool_rate_state:
  "snd (pool_rate db i rating) = db \<or>
   (\<exists>a n. snd (pool_rate db i rating) =
      db\<lparr>movies_table := update_rows (movies_table db) i
           (\<lambda>m. m\<lparr>average_rating := a, num_ratings := n\<rparr>)\<rparr>)"
  by (auto simp: pool_rate_def Let_def beginTransaction_def rollback_def commit_def split: option.splits)

lemma select_rated_twice: "select_by_id (movies_table rated_twice) 2 =
    [shawshank\<lparr>average_rating := 300, num_ratings := 2\<rparr>]"
  by (simp add: rated_twice_def select_by_id_def inception_def shawshank_def)

lemma round2_11_3: "round2 (11 / 3) = 367 / 100"
  by (simp add: round2_def floor_eq_iff)

lemma rate_movie_rated_twice:
  "rate_movie fr rated_twice 2 (Some 5) =
     (\<lparr>status = 200, body = Rated ''Movie rated successfully.'' (367 / 100) 3\<rparr>,
      \<lparr>movies_table = [inception, shawshank\<lparr>average_rating := 367, num_ratings := 3\<rparr>],
       auto_increment = 4\<rparr>)"
proof -
  have "of_int (toFixed2 (11 / 3)) = (367 :: rat)"
    by (simp add: toFixed2_hundredths round2_11_3)
  then have t: "toFixed2 (11 / 3) = 367"
    by linarith
  have "(0::int) < 2" "(1::int) \<le> 5" "(5::int) \<le> 5"
    by simp_all
  from rate_movie_found[OF select_rated_twice[unfolded list.simps] this(2,3,1), of fr]
  show ?thesis
    by (simp add: parseFloat_average_def shawshank_def round2_11_3 t update_rows_def rated_twice_def inception_def)
qed

text \<open>
  C7. A rating request that answers 200 overwrites only \<open>average_rating\<close> and
  \<open>num_ratings\<close> of the rows with the requested id: every other column of those rows,
  every other row and the \<open>AUTO_INCREMENT\<close> counter are as before; in both servers.
\<close>

theorem submitRating_frame:
  "(status (fst (rate_movie found_rows db i rating)) = 200 \<longrightarrow>
      only_aggregate_written db i (snd (rate_movie found_rows db i rating))) \<and>
   (status (fst (pool_rate db i rating)) = 200 \<longrightarrow>
      only_aggregate_written db i (snd (pool_rate db i rating)))"
  using rate_movie_state[of found_rows db i rating] pool_rate_state[of db i rating]
  by (auto simp: only_aggregate_written_refl only_aggregate_written_update)

theorem submitRating_frame_witness:
  "status (fst (rate_movie False rated_twice 2 (Some 5))) = 200 \<and>
   status (fst (pool_rate rated_twice 2 (Some 5))) = 200 \<and>
   only_aggregate_written rated_twice 2 (snd (rate_movie False rated_twice 2 (Some 5))) \<and>
   only_aggregate_written rated_twice 2 (snd (pool_rate rated_twice 2 (Some 5))) \<and>
   movies_table (snd (rate_movie False rated_twice 2 (Some 5))) =
     [inception, shawshank\<lparr>average_rating := 367, num_ratings := 3\<rparr>]"
proof -
  have r: "1 \<le> (5::rat)" "(5::rat) \<le> 5"
    by simp_all
  have a: "status (fst (pool_rate rated_twice 2 (Some 5))) = 200"
    using pool_rate_found[OF select_rated_twice[unfolded list.simps] r] by simp
  have b: "status (fst (rate_movie False rated_twice 2 (Some 5))) = 200"
    by (simp add: rate_movie_rated_twice)
  from submitRating_frame[of False rated_twice 2 "Some 5"] a b
  show ?thesis
    by (simp add: rate_movie_rated_twice)
qed

subsection \<open>Rating a film that does not exist\<close>


lemma update_rows_absent: "select_by_id tbl i = [] \<Longrightarrow> update_rows tbl i f = tbl"
  by (induction tbl) (auto simp: select_by_id_def update_rows_def split: if_splits)








subsection \<open>Ratings that are not integers\<close>

lemma validateRating_None_iff:
  "validateRating rating = None \<longleftrightarrow> (\<exists>r. 1 \<le> r \<and> r \<le> 5 \<and> rating = Some (of_int r))"
proof
  assume "validateRating rating = None"
  then obtain q where q: "rating = Some q" "of_int \<lfloor>q\<rfloor> = q" "1 \<le> q" "q \<le> 5"
    by (auto simp: validateRating_def split: option.splits if_splits)
  then have "1 \<le> \<lfloor>q\<rfloor>" "\<lfloor>q\<rfloor> \<le> 5"
    by (simp_all add: le_floor_iff floor_le_iff)
  then show "\<exists>r. 1 \<le> r \<and> r \<le> 5 \<and> rating = Some (of_int r)"
    using q by metis
next
  assume "\<exists>r. 1 \<le> r \<and> r \<le> 5 \<and> rating = Some (of_int r)"
  then show "validateRating rating = None"
    by (auto simp: validateRating_valid)
qed

lemma rate_movie_invalid_rating:
  "0 < i \<Longrightarrow> validateRating rating \<noteq> None \<Longrightarrow>
   rate_movie fr db i rating =
     (\<lparr>status = 400, body = Error ''Rating must be an integer between 1 and 5.''\<rparr>, db)"
  by (auto simp: rate_movie_def validateRating_def split: option.splits if_splits)

lemma select_shawshank: "select_by_id (movies_table init_sql) 2 = [shawshank]"
  by (simp add: init_sql_def select_by_id_def inception_def shawshank_def pulp_fiction_def)

text \<open>
  C4. A rating of 2.5 for the second film of \<open>init.sql\<close>: \<open>server.js\<close> refuses it with
  400, as for every rating that is not an integer from 1 to 5
  (\<open>rate_movie_invalid_rating\<close>), while the pool server accepts it with 200 and writes
  the aggregate \<open>(2.50, 1)\<close>: its guard checks the range only.
\<close>

theorem pool_rate_accepts_fraction:
  "fst (rate_movie found_rows init_sql 2 (Some (5 / 2))) =
     \<lparr>status = 400, body = Error ''Rating must be an integer between 1 and 5.''\<rparr> \<and>
   pool_rate init_sql 2 (Some (5 / 2)) =
     (\<lparr>status = 200, body = Rated ''Rating submitted successfully'' (5 / 2) 1\<rparr>,
      \<lparr>movies_table = [inception, shawshank\<lparr>average_rating := 250, num_ratings := 1\<rparr>, pulp_fiction],
       auto_increment = 4\<rparr>)"
proof -
  have r: "1 \<le> (5 / 2 :: rat)" "(5 / 2 :: rat) \<le> 5"
    by simp_all
  have rnd: "round2 (5 / 2) = 5 / 2"
    by (simp add: round2_def floor_eq_iff)
  have "of_int (toFixed2 (5 / 2)) = (250 :: rat)"
    by (simp add: toFixed2_hundredths rnd)
  then have t: "toFixed2 (5 / 2) = 250"
    by linarith
  have "\<lfloor>5 / 2 :: rat\<rfloor> = 2"
    by (simp add: floor_eq_iff)
  then have "validateRating (Some (5 / 2)) \<noteq> None"
    by (simp add: validateRating_def)
  then have a: "fst (rate_movie found_rows init_sql 2 (Some (5 / 2))) =
     \<lparr>status = 400, body = Error ''Rating must be an integer between 1 and 5.''\<rparr>"
    by (simp add: rate_movie_invalid_rating)
  show ?thesis
    unfolding a pool_rate_found[OF select_shawshank r]
    by (simp add: parseFloat_average_def shawshank_def rnd t update_rows_def init_sql_def
        inception_def pulp_fiction_def)
qed

subsection \<open>Sequences of ratings\<close>


















subsection \<open>Who writes the aggregate\<close>

lemma assign_fields_aggregate:
  "average_rating (assign (fieldsToUpdate data) m) = average_rating m \<and>
   num_ratings (assign (fieldsToUpdate data) m) = num_ratings m \<and>
   movie_id (assign (fieldsToUpdate data) m) = movie_id m"
  by (simp add: assign_def fieldsToUpdate_def split: option.splits)

lemma update_movie_keeps_aggregate:
  "map average_rating (movies_table (snd (update_movie fr db i data))) = map average_rating (movies_table db) \<and>
   map num_ratings (movies_table (snd (update_movie fr db i data))) = map num_ratings (movies_table db)"
  by (auto simp: update_movie_def Let_def update_rows_def assign_fields_aggregate split: option.splits)

lemma create_movie_default_aggregate:
  "snd (create_movie db data) = db \<or>
   (\<exists>row. movies_table (snd (create_movie db data)) = movies_table db @ [row] \<and>
          average_rating row = 0 \<and> num_ratings row = 0)"
  by (simp add: create_movie_def Let_def split: option.splits)

lemma pool_create_default_aggregate:
  "snd (pool_create db data) = db \<or>
   (\<exists>row. movies_table (snd (pool_create db data)) = movies_table db @ [row] \<and>
          average_rating row = 0 \<and> num_ratings row = 0)"
  by (simp add: pool_create_def Let_def)

lemma delete_movie_keeps_rows:
  "movies_table (snd (delete_movie db i)) = movies_table db \<or>
   movies_table (snd (delete_movie db i)) = filter (\<lambda>m. movie_id m \<noteq> i) (movies_table db)"
  by (simp add: delete_movie_def Let_def sql_delete_def)

text \<open>
  C6. Films are created with the aggregate \<open>(0.00, 0)\<close> by both servers, and the update of
  \<open>server.js\<close> writes neither aggregate column, whatever the body
  (\<open>update_movie_keeps_aggregate\<close>). The update of the pool server does write them: a body
  holding only \<open>average_rating = 5\<close> and \<open>num_ratings = 1000\<close>, sent for the second film of
  \<open>init.sql\<close>, is answered 200 and stores \<open>(5.00, 1000)\<close>, where \<open>server.js\<close> answers 400
  and stores nothing.
\<close>

theorem pool_update_writes_aggregate:
  "pool_update init_sql 2 only_ratings =
     (\<lparr>status = 200, body = Message ''Movie updated successfully''\<rparr>,
      \<lparr>movies_table = [inception, shawshank\<lparr>average_rating := 500, num_ratings := 1000\<rparr>, pulp_fiction],
       auto_increment = 4\<rparr>) \<and>
   update_movie found_rows init_sql 2 only_ratings =
     (\<lparr>status = 400, body = Error ''No fields provided for update.''\<rparr>, init_sql)"
proof -
  have d: "decimal_3_2 5 = 500"
    by (simp add: decimal_3_2_def)
  have "pool_update init_sql 2 only_ratings =
     (\<lparr>status = 200, body = Message ''Movie updated successfully''\<rparr>,
      \<lparr>movies_table = [inception, shawshank\<lparr>average_rating := 500, num_ratings := 1000\<rparr>, pulp_fiction],
       auto_increment = 4\<rparr>)"
    by (simp add: pool_update_def set_clause_def fieldsToUpdate_def only_ratings_def assign_def
        update_rows_def init_sql_def inception_def shawshank_def pulp_fiction_def d)
  moreover have "update_movie found_rows init_sql 2 only_ratings =
     (\<lparr>status = 400, body = Error ''No fields provided for update.''\<rparr>, init_sql)"
    by (simp add: update_movie_def validateMovieData_def fieldsToUpdate_def only_ratings_def)
  ultimately show ?thesis
    by simp
qed

subsection \<open>Search\<close>

lemma search_movies_no_criteria:
  "\<not> given (query_title q) \<Longrightarrow> \<not> given (query_director q) \<Longrightarrow> \<not> given (query_genre q) \<Longrightarrow>
   query_year q = None \<Longrightarrow>
   search_movies LIKE db q =
     \<lparr>status = 400,
      body = Error ''Please provide at least one search criterion (title, director, genre, or year).''\<rparr>"
  by (simp add: search_movies_def search_params_def)

lemma search_movies_accepts:
  "given (query_title q) \<or> given (query_director q) \<or> given (query_genre q) \<or> query_year q \<noteq> None \<Longrightarrow>
   (case query_year q of None \<Rightarrow> True | Some y \<Rightarrow> 0 < y) \<Longrightarrow>
   status (search_movies LIKE db q) = 200"
  by (auto simp: search_movies_def search_params_def split: option.splits)

lemma search_movies_year:
  "\<not> given (query_title q) \<Longrightarrow> \<not> given (query_director q) \<Longrightarrow> \<not> given (query_genre q) \<Longrightarrow>
   query_year q = Some y \<Longrightarrow> 0 < y \<Longrightarrow>
   search_movies LIKE db q =
     \<lparr>status = 200, body = Rows (filter (\<lambda>m. year m = Some y) (movies_table db))\<rparr>"
  by (simp add: search_movies_def search_params_def)

text \<open>
  C8. The search of \<open>server.js\<close> answers 400 without a criterion
  (\<open>search_movies_no_criteria\<close>), accepts each of title, director, genre and a positive year
  (\<open>search_movies_accepts\<close>) and, for a positive year alone, returns the rows of that year
  (\<open>search_movies_year\<close>). The search of the pool server reads \<open>term\<close> only: for the
  query \<open>?year=1994\<close> on the table of \<open>init.sql\<close> it answers 400, where \<open>server.js\<close>
  returns the two films of 1994.
\<close>

theorem pool_search_ignores_year:
  "pool_search LIKE init_sql year_1994 =
     \<lparr>status = 400, body = Error ''Search term is required.''\<rparr> \<and>
   search_movies LIKE init_sql year_1994 =
     \<lparr>status = 200, body = Rows [shawshank, pulp_fiction]\<rparr>"
  by (simp add: pool_search_def search_movies_def search_params_def given_def year_1994_def
      init_sql_def inception_def shawshank_def pulp_fiction_def)

subsection \<open>Delete\<close>

lemma delete_movie_absent:
  "0 < i \<Longrightarrow> select_by_id (movies_table db) i = [] \<Longrightarrow>
   delete_movie db i = (\<lparr>status = 404, body = Message ''Movie not found.''\<rparr>, db)"
proof -
  assume i: "0 < i" and absent: "select_by_id (movies_table db) i = []"
  then have "filter (\<lambda>m. movie_id m \<noteq> i) (movies_table db) = movies_table db"
    by (simp add: select_by_id_def filter_empty_conv filter_id_conv)
  then show ?thesis
    using i absent by (simp add: delete_movie_def sql_delete_def select_by_id_def)
qed

lemma delete_movie_present:
  "0 < i \<Longrightarrow> select_by_id (movies_table db) i \<noteq> [] \<Longrightarrow>
   delete_movie db i =
     (\<lparr>status = 200, body = Message ''Movie deleted successfully.''\<rparr>,
      db\<lparr>movies_table := filter (\<lambda>m. movie_id m \<noteq> i) (movies_table db)\<rparr>) \<and>
   select_by_id (movies_table (snd (delete_movie db i))) i = []"
  by (simp add: delete_movie_def sql_delete_def select_by_id_def Let_def filter_empty_conv)

lemma delete_movie_never_200_absent:
  "select_by_id (movies_table db) i = [] \<Longrightarrow> status (fst (delete_movie db i)) \<noteq> 200"
  by (simp add: delete_movie_def sql_delete_def select_by_id_def Let_def)


text \<open>
  C9. The delete of \<open>server.js\<close> answers 404 for a positive id without a film
  (\<open>delete_movie_absent\<close>), removes the film and answers 200 when there is one
  (\<open>delete_movie_present\<close>), and never answers 200 for an absent film
  (\<open>delete_movie_never_200_absent\<close>). The delete of the pool server answers 200 whether
  or not a row was removed: for id 42 on the table of \<open>init.sql\<close>, which has no such film,
  it reports success, where \<open>server.js\<close> answers 404.
\<close>

theorem pool_delete_absent:
  "select_by_id (movies_table init_sql) 42 = [] \<and>
   pool_delete init_sql 42 =
     (\<lparr>status = 200, body = Message ''Movie deleted successfully''\<rparr>, init_sql) \<and>
   delete_movie init_sql 42 = (\<lparr>status = 404, body = Message ''Movie not found.''\<rparr>, init_sql)"
  by (simp add: select_by_id_def pool_delete_def delete_movie_def sql_delete_def init_sql_def
      inception_def shawshank_def pulp_fiction_def)

subsection \<open>Updates that change nothing\<close>

lemma assign_append: "assign (fs @ gs) m = assign gs (assign fs m)"
  by (simp add: assign_def)

lemma assign_option:
  "assign (case x of None \<Rightarrow> [] | Some v \<Rightarrow> [f v]) m = (case x of None \<Rightarrow> m | Some v \<Rightarrow> f v m)"
  by (simp add: assign_def split: option.splits)

lemma assign_same_values:
  assumes "same_values data m"
  shows "assign (fieldsToUpdate data) m = m"
proof -
  have 1: "(case data_title data of None \<Rightarrow> m | Some v \<Rightarrow> m\<lparr>title := v\<rparr>) = m"
    using assms by (cases "data_title data") (auto simp: same_values_def)
  have 2: "(case data_director data of None \<Rightarrow> m | Some v \<Rightarrow> m\<lparr>director := Some v\<rparr>) = m"
    using assms by (cases "data_director data") (auto simp: same_values_def)
  have 3: "(case data_year data of None \<Rightarrow> m | Some v \<Rightarrow> m\<lparr>year := Some v\<rparr>) = m"
    using assms by (cases "data_year data") (auto simp: same_values_def)
  have 4: "(case data_genre data of None \<Rightarrow> m | Some v \<Rightarrow> m\<lparr>genre := Some v\<rparr>) = m"
    using assms by (cases "data_genre data") (auto simp: same_values_def)
  have 5: "(case data_description data of None \<Rightarrow> m | Some v \<Rightarrow> m\<lparr>description := Some v\<rparr>) = m"
    using assms by (cases "data_description data") (auto simp: same_values_def)
  have 6: "(case data_poster_url data of None \<Rightarrow> m | Some v \<Rightarrow> m\<lparr>poster_url := Some v\<rparr>) = m"
    using assms by (cases "data_poster_url data") (auto simp: same_values_def)
  show ?thesis
    unfolding fieldsToUpdate_def assign_append assign_option
    by (simp only: 1 2 3 4 5 6)
qed

lemma update_rows_unchanged:
  "\<forall>m\<in>set (select_by_id tbl i). f m = m \<Longrightarrow> update_rows tbl i f = tbl"
  by (induction tbl) (auto simp: update_rows_def select_by_id_def)


lemma affectedRows_found: "affectedRows True tbl i f = length (select_by_id tbl i)"
  by (simp add: affectedRows_def select_by_id_def)

lemma update_movie_no_change_found_rows:
  "0 < i \<Longrightarrow> validateMovieData data False = None \<Longrightarrow> length (fieldsToUpdate data) \<noteq> 0 \<Longrightarrow>
   select_by_id (movies_table db) i \<noteq> [] \<Longrightarrow>
   \<forall>m\<in>set (select_by_id (movies_table db) i). same_values data m \<Longrightarrow>
   update_movie True db i data =
     (\<lparr>status = 200, body = Message ''Movie updated successfully.''\<rparr>, db)"
  by (simp add: update_movie_def affectedRows_found update_rows_unchanged assign_same_values)





end
